theory Spec2Isabelle
  imports Complex_Main "HOL-Library.Word"
begin

section \<open>Values of the host language\<close>

text \<open>
  The application is one React component, \<^verbatim>\<open>App\<close> in \<^verbatim>\<open>src/App.jsx\<close>. Its handlers are
  embedded as functions that take the component state and return an outcome together
  with the state they leave behind. A thrown error does not undo the state updates made
  before it, so every handler returns a pair: the outcome (\<open>Inl\<close> the error thrown,
  \<open>Inr\<close> the value returned) and the state.

  An error object carries a name and a message. \<^verbatim>\<open>new Error(m)\<close> is
  \<open>JsError ''Error'' m\<close>; the errors raised by the platform (a rejected
  \<^verbatim>\<open>getUserMedia\<close>, a failed decode, a \<^verbatim>\<open>SyntaxError\<close> of \<^verbatim>\<open>JSON.parse\<close>) are values of
  the same type, supplied by the environment. Console output is not modelled.
\<close>

datatype js_error = JsError (name: string) (message: string)

text \<open>
  Numbers. A Number of the host language is an IEEE 754 binary64 value: a finite value, an
  infinity or \<open>NaN\<close>. A finite value is kept as the real number it denotes; the two zeros
  are not told apart (they differ only as divisors, and the source divides by the literal 2
  alone). Every arithmetic operation returns the exact result rounded to the nearest
  value of the format, ties to the even significand, and an infinity when the rounded
  value is out of range.

  \<open>ieee_round p emin emax\<close> rounds a real to the binary format with \<open>p\<close> significant
  bits and exponents from \<open>emin\<close> to \<open>emax\<close>: binary64 is \<open>53, -1022, 1023\<close>, binary32 is
  \<open>24, -126, 127\<close>. Below \<open>2 powi emin\<close> the spacing stays that of the subnormal values.
\<close>

datatype jsnumber = Num real | PosInf | NegInf | NaN

definition round_half_even :: "real \<Rightarrow> int" where
  "round_half_even q =
     (let f = \<lfloor>q\<rfloor>; d = q - of_int f
      in if d < 1 / 2 then f else if 1 / 2 < d then f + 1 else if even f then f else f + 1)"

definition ieee_round :: "nat \<Rightarrow> int \<Rightarrow> int \<Rightarrow> real \<Rightarrow> jsnumber" where
  "ieee_round p emin emax x =
     (if x = 0 then Num 0
      else
        let e = max \<lfloor>log 2 \<bar>x\<bar>\<rfloor> emin;
            ulp = 2 powi (e - int p + 1);
            y = of_int (round_half_even (x / ulp)) * ulp
        in if 2 powi (emax + 1) \<le> \<bar>y\<bar> then (if 0 < x then PosInf else NegInf) else Num y)"

definition to_double :: "real \<Rightarrow> jsnumber" where
  "to_double x = ieee_round 53 (- 1022) 1023 x"

text \<open>The conversion a store into a \<^verbatim>\<open>Float32Array\<close> applies to the Number stored.\<close>

fun to_float32 :: "jsnumber \<Rightarrow> jsnumber" where
  "to_float32 (Num x) = ieee_round 24 (- 126) 127 x"
| "to_float32 v = v"

fun is_negative :: "jsnumber \<Rightarrow> bool" where
  "is_negative (Num x) = (x < 0)"
| "is_negative NegInf = True"
| "is_negative _ = False"

fun num_add :: "jsnumber \<Rightarrow> jsnumber \<Rightarrow> jsnumber" where
  "num_add (Num x) (Num y) = to_double (x + y)"
| "num_add NaN b = NaN"
| "num_add a NaN = NaN"
| "num_add PosInf NegInf = NaN"
| "num_add NegInf PosInf = NaN"
| "num_add (Num x) b = b"
| "num_add a b = a"

fun num_mul :: "jsnumber \<Rightarrow> jsnumber \<Rightarrow> jsnumber" where
  "num_mul (Num x) (Num y) = to_double (x * y)"
| "num_mul NaN b = NaN"
| "num_mul a NaN = NaN"
| "num_mul a b =
     (if a = Num 0 \<or> b = Num 0 then NaN
      else if is_negative a = is_negative b then PosInf else NegInf)"

text \<open>
  The source divides by the literal 2 only. A zero divisor never arises; it is taken as
  the positive zero here.
\<close>

fun num_div :: "jsnumber \<Rightarrow> jsnumber \<Rightarrow> jsnumber" where
  "num_div (Num x) (Num y) =
     (if y = 0 then (if x = 0 then NaN else if 0 < x then PosInf else NegInf)
      else to_double (x / y))"
| "num_div NaN b = NaN"
| "num_div a NaN = NaN"
| "num_div (Num x) b = Num 0"
| "num_div a (Num y) = (if is_negative a = (y < 0) then PosInf else NegInf)"
| "num_div a b = NaN"

text \<open>
  A \<^verbatim>\<open>Float32Array\<close> is a list of numbers of fixed length. Reading index \<open>i\<close> out of
  range gives \<^verbatim>\<open>undefined\<close>, which the arithmetic turns into \<open>NaN\<close>; writing out of range
  is ignored; writing in range stores the value rounded to binary32.
\<close>

type_synonym float32array = "jsnumber list"

definition new_Float32Array :: "nat \<Rightarrow> float32array" where
  "new_Float32Array n = replicate n (Num 0)"

definition ta_get :: "float32array \<Rightarrow> nat \<Rightarrow> jsnumber" where
  "ta_get xs i = (if i < length xs then xs ! i else NaN)"

definition ta_set :: "float32array \<Rightarrow> nat \<Rightarrow> jsnumber \<Rightarrow> float32array" where
  "ta_set xs i v = (if i < length xs then xs[i := to_float32 v] else xs)"

section \<open>The decoded audio and the downmix\<close>

text \<open>
  An \<^verbatim>\<open>AudioBuffer\<close> as the source reads it: \<^verbatim>\<open>numberOfChannels\<close>, \<^verbatim>\<open>length\<close> (the number
  of sample frames) and the channel data. \<^verbatim>\<open>getChannelData(c)\<close> raises an
  \<^verbatim>\<open>IndexSizeError\<close> for a channel that does not exist.
\<close>

record audio_buffer =
  numberOfChannels :: nat
  buffer_length :: nat
  channels :: "float32array list"

text \<open>
  The buffers the platform hands out: at least one channel, as many channels as
  \<^verbatim>\<open>numberOfChannels\<close> says, each of \<^verbatim>\<open>length\<close> samples.
\<close>

definition wf_audio_buffer :: "audio_buffer \<Rightarrow> bool" where
  "wf_audio_buffer b \<longleftrightarrow>
     0 < numberOfChannels b \<and>
     length (channels b) = numberOfChannels b \<and>
     list_all (\<lambda>c. length c = buffer_length b) (channels b)"

definition getChannelData :: "audio_buffer \<Rightarrow> nat \<Rightarrow> js_error + float32array" where
  "getChannelData b c =
     (if c < length (channels b) then Inr (channels b ! c)
      else Inl (JsError ''IndexSizeError'' ''channel index out of range''))"

text \<open>Line 143, \<^verbatim>\<open>Math.sqrt(2)\<close>: the binary64 value nearest to the square root of 2.\<close>

definition SCALING_FACTOR :: jsnumber where
  "SCALING_FACTOR = to_double (sqrt 2)"

text \<open>
  The loop of lines 149--151:
  \<^verbatim>\<open>for (let i = 0; i < decoded.length; ++i) audio[i] = SCALING_FACTOR * (left[i] + right[i]) / 2\<close>.
  The bound is the buffer's \<^verbatim>\<open>length\<close>, the array written has the length of \<^verbatim>\<open>left\<close>.
\<close>

function downmix_loop ::
  "nat \<Rightarrow> nat \<Rightarrow> float32array \<Rightarrow> float32array \<Rightarrow> float32array \<Rightarrow> float32array" where
  "downmix_loop i n left right audio =
     (if i < n
      then downmix_loop (i + 1) n left right
             (ta_set audio i
                (num_div (num_mul SCALING_FACTOR (num_add (ta_get left i) (ta_get right i)))
                   (Num 2)))
      else audio)"
  by pat_completeness auto
termination
  by (relation "measure (\<lambda>(i, n, left, right, audio). n - i)") auto

declare downmix_loop.simps [simp del]

text \<open>Lines 141--155: stereo is mixed down, anything else uses its first channel.\<close>

definition downmix :: "audio_buffer \<Rightarrow> js_error + float32array" where
  "downmix decoded =
     (if numberOfChannels decoded = 2 then
        (case getChannelData decoded 0 of
           Inl e \<Rightarrow> Inl e
         | Inr left \<Rightarrow>
             (case getChannelData decoded 1 of
                Inl e \<Rightarrow> Inl e
              | Inr right \<Rightarrow>
                  Inr (downmix_loop 0 (buffer_length decoded) left right
                         (new_Float32Array (length left)))))
      else getChannelData decoded 0)"

section \<open>JSON values and the response of the analysis service\<close>

text \<open>
  The values \<^verbatim>\<open>response.json()\<close> and \<^verbatim>\<open>JSON.parse\<close> produce, with \<^verbatim>\<open>undefined\<close> added
  for a property that is not there. An object is the list of its own properties, each
  key once.
\<close>

datatype jsval =
    JUndefined
  | JNull
  | JBool bool
  | JNum real
  | JStr string
  | JArr "jsval list"
  | JObj "(string \<times> jsval) list"

definition type_error :: "string \<Rightarrow> js_error" where
  "type_error what = JsError ''TypeError'' (''Cannot read properties of '' @ what)"

text \<open>
  \<^verbatim>\<open>v.p\<close> for a property name \<open>p\<close> that is neither an index nor a built-in property
  of arrays, strings, numbers or booleans (true of \<^verbatim>\<open>choices\<close>, \<^verbatim>\<open>message\<close> and
  \<^verbatim>\<open>content\<close>): a \<^verbatim>\<open>TypeError\<close> on \<^verbatim>\<open>undefined\<close> and \<^verbatim>\<open>null\<close>, the property or
  \<^verbatim>\<open>undefined\<close> on an object, \<^verbatim>\<open>undefined\<close> on everything else.
\<close>

fun get_prop :: "jsval \<Rightarrow> string \<Rightarrow> js_error + jsval" where
  "get_prop JUndefined p = Inl (type_error ''undefined'')"
| "get_prop JNull p = Inl (type_error ''null'')"
| "get_prop (JObj kvs) p = Inr (case map_of kvs p of None \<Rightarrow> JUndefined | Some v \<Rightarrow> v)"
| "get_prop _ p = Inr JUndefined"

text \<open>\<^verbatim>\<open>v[0]\<close>: the first element of an array, the first character of a string.\<close>

fun get_index0 :: "jsval \<Rightarrow> js_error + jsval" where
  "get_index0 JUndefined = Inl (type_error ''undefined'')"
| "get_index0 JNull = Inl (type_error ''null'')"
| "get_index0 (JArr []) = Inr JUndefined"
| "get_index0 (JArr (x # xs)) = Inr x"
| "get_index0 (JStr []) = Inr JUndefined"
| "get_index0 (JStr (c # cs)) = Inr (JStr [c])"
| "get_index0 (JObj kvs) = Inr (case map_of kvs ''0'' of None \<Rightarrow> JUndefined | Some v \<Rightarrow> v)"
| "get_index0 _ = Inr JUndefined"

text \<open>Sequencing of steps that may throw: the first error ends the chain.\<close>

definition and_then :: "'e + 'a \<Rightarrow> ('a \<Rightarrow> 'e + 'b) \<Rightarrow> 'e + 'b" where
  "and_then r f = (case r of Inl e \<Rightarrow> Inl e | Inr v \<Rightarrow> f v)"

text \<open>Line 97, the argument of \<^verbatim>\<open>JSON.parse\<close>: \<^verbatim>\<open>data.choices[0].message.content\<close>.\<close>

definition content_of :: "jsval \<Rightarrow> js_error + jsval" where
  "content_of data =
     and_then (get_prop data ''choices'') (\<lambda>choices.
     and_then (get_index0 choices) (\<lambda>choice.
     and_then (get_prop choice ''message'') (\<lambda>msg.
     get_prop msg ''content'')))"

text \<open>
  The request of lines 55--87. The fixed parts of the body (model, system prompt,
  response format, token limit, temperature) are constants and are left out; what varies
  is the bearer credential and the user message built from the transcript.
\<close>

record request =
  req_method :: string
  req_url :: string
  req_authorization :: string
  req_user_content :: string

definition mk_request :: "string \<Rightarrow> string \<Rightarrow> request" where
  "mk_request key txt =
     \<lparr> req_method = ''POST'',
       req_url = ''https://api.openai.com/v1/chat/completions'',
       req_authorization = ''Bearer '' @ key,
       req_user_content = ''Please analyze this transcribed text: '' @ [CHR 0x22] @ txt @ [CHR 0x22] \<rparr>"

text \<open>
  A \<^verbatim>\<open>Response\<close>: the \<^verbatim>\<open>ok\<close> flag, the status code, and what \<^verbatim>\<open>response.json()\<close>
  settles to (an error when the body is not JSON).
\<close>

record response =
  ok :: bool
  status :: nat
  json :: "js_error + jsval"

text \<open>The decimal digits of a number, as a template literal prints it.\<close>

function string_of_nat :: "nat \<Rightarrow> string" where
  "string_of_nat n =
     (if n < 10 then [''0123456789'' ! n]
      else string_of_nat (n div 10) @ [''0123456789'' ! (n mod 10)])"
  by pat_completeness auto
termination
  by (relation "measure (\<lambda>n. n)") auto

declare string_of_nat.simps [simp del]

section \<open>The component state and its environment\<close>

type_synonym byte = "8 word"
type_synonym blob = "byte list"

datatype media_stream = MediaStream nat

datatype asr_pipeline = WhisperBase

text \<open>
  A \<^verbatim>\<open>MediaRecorder\<close> with the handlers \<^verbatim>\<open>startRecording\<close> registers on it. Its state is
  \<^verbatim>\<open>inactive\<close> until \<^verbatim>\<open>start()\<close> and after \<^verbatim>\<open>stop()\<close>; \<^verbatim>\<open>requestData()\<close> on an inactive
  recorder throws an \<^verbatim>\<open>InvalidStateError\<close>. The handlers are closures of the render in
  which \<^verbatim>\<open>startRecording\<close> ran, so the \<^verbatim>\<open>apiKey\<close> that \<^verbatim>\<open>analyzeWithOpenAI\<close> reads inside
  them is the one of that render: it is kept with the recorder.
\<close>

datatype recorder_state = Inactive | Recording

record recorder =
  rec_stream :: media_stream
  rec_apiKey :: string
  rec_state :: recorder_state

definition invalid_state_error :: js_error where
  "invalid_state_error = JsError ''InvalidStateError'' ''The recorder is inactive''"

text \<open>
  The calls that act on the world outside the component, in the order they are made.
  The log is not a variable of the source; it is what makes "no call was made" and
  "exactly one call was made" statements about the state.
\<close>

datatype effect =
    GetUserMedia
  | RecorderStart media_stream
  | RequestData media_stream
  | RecorderStop media_stream
  | TracksStop media_stream
  | Fetch request

text \<open>
  The hooks of lines 7--22. \<^verbatim>\<open>useState\<close> values and \<^verbatim>\<open>useRef\<close> cells are fields alike.
  State updates take effect in the order they are issued.
\<close>

record app_state =
  isRecording :: bool
  transcription :: string
  analysis :: jsval
  status_line :: string
  isModelLoading :: bool
  isAnalyzing :: bool
  apiKey :: string
  recorderRef :: "recorder option"
  transcriberRef :: "asr_pipeline option"
  stream_state :: "media_stream option"
  chunksRef :: "blob list"
  effects :: "effect list"

text \<open>
  The \<^verbatim>\<open>useState\<close> values a handler reads are constants of the render that created the
  handler, not the state at the time of the call; the \<^verbatim>\<open>useRef\<close> cells are read when the
  handler runs. \<^verbatim>\<open>stopRecording\<close> reads \<^verbatim>\<open>isRecording\<close> and \<^verbatim>\<open>stream\<close> this way. The
  button invokes the handlers of the latest render, whose constants are the committed
  state.
\<close>

record closure =
  cap_isRecording :: bool
  cap_stream :: "media_stream option"

definition render :: "app_state \<Rightarrow> closure" where
  "render s = \<lparr> cap_isRecording = isRecording s, cap_stream = stream_state s \<rparr>"

text \<open>
  What the platform and the two external collaborators answer: the outcome of
  \<^verbatim>\<open>getUserMedia\<close>, of loading the speech model, of \<^verbatim>\<open>decodeAudioData\<close>, of the
  transcriber (the \<^verbatim>\<open>text\<close> of its result), of \<^verbatim>\<open>fetch\<close> and of \<^verbatim>\<open>JSON.parse\<close>. Every
  one of them may reject or throw. The other platform calls (constructing and starting
  the recorder, stopping tracks, reading the blob) are taken to succeed.
\<close>

record env =
  getUserMedia :: "js_error + media_stream"
  load_pipeline :: "js_error + asr_pipeline"
  decodeAudioData :: "blob \<Rightarrow> js_error + audio_buffer"
  transcriber :: "float32array \<Rightarrow> js_error + string"
  fetch :: "request \<Rightarrow> js_error + response"
  JSON_parse :: "jsval \<Rightarrow> js_error + jsval"

definition initial_state :: app_state where
  "initial_state =
     \<lparr> isRecording = False,
       transcription = [],
       analysis = JObj [(''contextualAnalysis'', JStr []), (''companies'', JArr []),
                        (''products'', JArr []), (''relatedInfo'', JStr [])],
       status_line = [],
       isModelLoading = True,
       isAnalyzing = False,
       apiKey = [],
       recorderRef = None,
       transcriberRef = None,
       stream_state = None,
       chunksRef = [],
       effects = [] \<rparr>"

definition log_effect :: "effect \<Rightarrow> app_state \<Rightarrow> app_state" where
  "log_effect e s = s\<lparr>effects := effects s @ [e]\<rparr>"

text \<open>Lines 24--45, the effect run once on mount.\<close>

definition initTranscriber :: "env \<Rightarrow> app_state \<Rightarrow> app_state" where
  "initTranscriber en s =
     (let s1 = s\<lparr>status_line := ''Loading Whisper model...''\<rparr>;
          s2 = s1\<lparr>isRecording := False\<rparr>
      in case load_pipeline en of
           Inl e \<Rightarrow> s2\<lparr>status_line := ''Error loading model: '' @ message e\<rparr>
         | Inr p \<Rightarrow>
             s2\<lparr>transcriberRef := Some p, isModelLoading := False,
                status_line := ''Model ready''\<rparr>)"

text \<open>Line 217, the credential input.\<close>

definition setApiKey :: "string \<Rightarrow> app_state \<Rightarrow> app_state" where
  "setApiKey v s = s\<lparr>apiKey := v\<rparr>"

section \<open>The analysis operation\<close>

text \<open>
  Lines 47--110. The credential is the \<^verbatim>\<open>apiKey\<close> of the closure, passed here as an
  argument. The state while the request is outstanding (the \<^verbatim>\<open>await fetch\<close> of line 55):
\<close>

definition analyze_suspended :: "string \<Rightarrow> string \<Rightarrow> app_state \<Rightarrow> app_state" where
  "analyze_suspended key txt s = log_effect (Fetch (mk_request key txt)) (s\<lparr>isAnalyzing := True\<rparr>)"

text \<open>
  What the body of the \<^verbatim>\<open>try\<close> settles to once \<^verbatim>\<open>fetch\<close> has answered (lines 55--103).
  The inner and outer \<^verbatim>\<open>catch\<close> log and rethrow, so an error passes through unchanged.
\<close>

definition analyze_outcome :: "env \<Rightarrow> request \<Rightarrow> js_error + jsval" where
  "analyze_outcome en req =
     (case fetch en req of
        Inl e \<Rightarrow> Inl e
      | Inr resp \<Rightarrow>
          if \<not> ok resp
          then Inl (JsError ''Error'' (''OpenAI API error: '' @ string_of_nat (status resp)))
          else
            (case json resp of
               Inl e \<Rightarrow> Inl e
             | Inr data \<Rightarrow>
                 (case content_of data of
                    Inl e \<Rightarrow> Inl e
                  | Inr content \<Rightarrow> JSON_parse en content)))"

definition analyzeWithOpenAI ::
  "env \<Rightarrow> string \<Rightarrow> string \<Rightarrow> app_state \<Rightarrow> (js_error + jsval) \<times> app_state" where
  "analyzeWithOpenAI en key txt s =
     (if key = [] then (Inl (JsError ''Error'' ''Please enter your OpenAI API key''), s)
      else
        let s1 = analyze_suspended key txt s
        in (analyze_outcome en (mk_request key txt), s1\<lparr>isAnalyzing := False\<rparr>))"

text \<open>
  The operation resumed after the \<^verbatim>\<open>await\<close> of line 55, for the interleavings in which
  other handlers run while the request is outstanding: lines 89--109 on the state found
  at that moment.
\<close>

definition analyze_resume ::
  "env \<Rightarrow> string \<Rightarrow> string \<Rightarrow> app_state \<Rightarrow> (js_error + jsval) \<times> app_state" where
  "analyze_resume en key txt s =
     (analyze_outcome en (mk_request key txt), s\<lparr>isAnalyzing := False\<rparr>)"


section \<open>Recording and the pipeline behind it\<close>

text \<open>Lines 121--125.\<close>

definition ondataavailable :: "blob \<Rightarrow> app_state \<Rightarrow> app_state" where
  "ondataavailable data s =
     (if 0 < length data then s\<lparr>chunksRef := chunksRef s @ [data]\<rparr> else s)"

text \<open>
  Lines 136--182, the handler that runs once the recorded blob has been read:
  decode, downmix, transcribe, analyse. A failed transcription is caught (line 169) and
  leaves \<^verbatim>\<open>result\<close> undefined; line 175 then reads \<^verbatim>\<open>result.text\<close>.
\<close>

definition onloadend ::
  "env \<Rightarrow> string \<Rightarrow> blob \<Rightarrow> app_state \<Rightarrow> (js_error + unit) \<times> app_state" where
  "onloadend en key arrayBuffer s =
     (case decodeAudioData en arrayBuffer of
        Inl e \<Rightarrow> (Inl e, s)
      | Inr decoded \<Rightarrow>
          (case downmix decoded of
             Inl e \<Rightarrow> (Inl e, s)
           | Inr audio \<Rightarrow>
               (case transcriberRef s of
                  None \<Rightarrow> (Inl (JsError ''Error'' ''Transcriber not initialized''), s)
                | Some p \<Rightarrow>
                    (case transcriber en audio of
                       Inl e \<Rightarrow>
                         (let s1 = s\<lparr>status_line := ''Transcription error: '' @ message e\<rparr>;
                              s2 = s1\<lparr>chunksRef := []\<rparr>
                          in (Inl (type_error ''undefined''), s2))
                     | Inr result_text \<Rightarrow>
                         (let s1 = s\<lparr>chunksRef := []\<rparr>;
                              s2 = s1\<lparr>transcription := result_text\<rparr>;
                              s3 = s2\<lparr>status_line := ''Transcription analysis in progress...''\<rparr>
                          in case analyzeWithOpenAI en key result_text s3 of
                               (Inl e, s4) \<Rightarrow> (Inl e, s4)
                             | (Inr analysisResult, s4) \<Rightarrow>
                                 (Inr (),
                                  s4\<lparr>analysis := analysisResult,
                                     status_line := ''Transcription analysis done!''\<rparr>))))))"

text \<open>
  Lines 128--184, the recorder's \<^verbatim>\<open>stop\<close> event, for the recorder \<open>r\<close> it fires on.
  The tracks stopped are those of the recorder the ref holds at that moment.
\<close>

definition onstop :: "env \<Rightarrow> recorder \<Rightarrow> app_state \<Rightarrow> (js_error + unit) \<times> app_state" where
  "onstop en r s =
     (let s1 = s\<lparr>status_line := ''Transcribing audio...''\<rparr>
      in case recorderRef s1 of
           None \<Rightarrow> (Inl (type_error ''null''), s1)
         | Some cur \<Rightarrow>
             (let s2 = log_effect (TracksStop (rec_stream cur)) s1;
                  webmBlob = concat (chunksRef s2)
              in onloadend en (rec_apiKey r) webmBlob s2))"

text \<open>
  Lines 112--192. The handlers registered on the new recorder capture the \<^verbatim>\<open>apiKey\<close> of
  the render the button was clicked in, which is the committed state.
\<close>

definition startRecording :: "env \<Rightarrow> app_state \<Rightarrow> (js_error + unit) \<times> app_state" where
  "startRecording en s =
     (let s0 = log_effect GetUserMedia s
      in case getUserMedia en of
           Inl e \<Rightarrow> (Inl e, s0)
         | Inr mediaStream \<Rightarrow>
             (let r = \<lparr>rec_stream = mediaStream, rec_apiKey = apiKey s, rec_state = Inactive\<rparr>;
                  s1 = s0\<lparr>recorderRef := Some r\<rparr>;
                  s2 = s1\<lparr>stream_state := Some mediaStream\<rparr>;
                  s3 = s2\<lparr>chunksRef := []\<rparr>;
                  s4 = (log_effect (RecorderStart mediaStream) s3)
                         \<lparr>recorderRef := Some (r\<lparr>rec_state := Recording\<rparr>)\<rparr>;
                  s5 = s4\<lparr>isRecording := True\<rparr>
              in (Inr (), s5\<lparr>status_line := ''Recording...''\<rparr>)))"

text \<open>
  Lines 194--203, for a handler with the captured constants \<open>cl\<close>. The guard reads the
  ref and the captured \<^verbatim>\<open>isRecording\<close>; \<^verbatim>\<open>requestData()\<close> throws when the recorder is
  inactive, before anything else is done; \<^verbatim>\<open>stop()\<close> leaves the recorder inactive.
\<close>

definition stopRecording :: "closure \<Rightarrow> app_state \<Rightarrow> (js_error + unit) \<times> app_state" where
  "stopRecording cl s =
     (case recorderRef s of
        None \<Rightarrow> (Inr (), s)
      | Some r \<Rightarrow>
          if \<not> cap_isRecording cl then (Inr (), s)
          else if rec_state r = Inactive then (Inl invalid_state_error, s)
          else
            (let s1 = log_effect (RequestData (rec_stream r)) s;
                 s2 = (log_effect (RecorderStop (rec_stream r)) s1)
                        \<lparr>recorderRef := Some (r\<lparr>rec_state := Inactive\<rparr>)\<rparr>;
                 s3 = s2\<lparr>isRecording := False\<rparr>;
                 s4 = s3\<lparr>status_line := []\<rparr>
             in case cap_stream cl of
                  None \<Rightarrow> (Inl (type_error ''null''), s4)
                | Some ms \<Rightarrow> (Inr (), log_effect (TracksStop ms) s4)))"

text \<open>
  Lines 225--227, the one button: disabled while the model is loading, an analysis is in
  progress or the credential is empty; otherwise it stops a running recording and starts
  one when none is running. A click on the disabled button reaches no handler.
\<close>

definition button_disabled :: "app_state \<Rightarrow> bool" where
  "button_disabled s \<longleftrightarrow> isModelLoading s \<or> isAnalyzing s \<or> apiKey s = []"

definition button_click :: "env \<Rightarrow> app_state \<Rightarrow> (js_error + unit) \<times> app_state" where
  "button_click en s =
     (if button_disabled s then (Inr (), s)
      else if isRecording s then stopRecording (render s) s
      else startRecording en s)"

text \<open>
  The same pipeline in the pieces between which other handlers can run. The \<^verbatim>\<open>stop\<close>
  event handler up to the reading of the blob (lines 129--133):
\<close>

definition onstop_begin :: "app_state \<Rightarrow> app_state" where
  "onstop_begin s =
     (let s1 = s\<lparr>status_line := ''Transcribing audio...''\<rparr>
      in case recorderRef s1 of
           None \<Rightarrow> s1
         | Some cur \<Rightarrow> log_effect (TracksStop (rec_stream cur)) s1)"

text \<open>Lines 174--177 once the transcriber has answered with a text.\<close>

definition transcribed :: "string \<Rightarrow> app_state \<Rightarrow> app_state" where
  "transcribed result_text s =
     s\<lparr>chunksRef := [], transcription := result_text,
       status_line := ''Transcription analysis in progress...''\<rparr>"

text \<open>Lines 89--109 and 180--181 once \<^verbatim>\<open>fetch\<close> has answered.\<close>

definition analyzed ::
  "env \<Rightarrow> string \<Rightarrow> string \<Rightarrow> app_state \<Rightarrow> (js_error + unit) \<times> app_state" where
  "analyzed en key result_text s =
     (case analyze_resume en key result_text s of
        (Inl e, s1) \<Rightarrow> (Inl e, s1)
      | (Inr analysisResult, s1) \<Rightarrow>
          (Inr (),
           s1\<lparr>analysis := analysisResult, status_line := ''Transcription analysis done!''\<rparr>))"

section \<open>Concrete inputs\<close>

text \<open>
  A stereo buffer and a mono buffer, an environment in which every collaborator answers
  well, and variations of it in which one of them fails.
\<close>

definition ex_stereo :: audio_buffer where
  "ex_stereo =
     \<lparr> numberOfChannels = 2, buffer_length = 2,
       channels = [[Num (1 / 2), Num (1 / 4)], [Num (1 / 4), Num (- (1 / 2))]] \<rparr>"

text \<open>A stereo buffer whose samples are both \<open>3 * 2 ^ 126\<close>, near the top of binary32.\<close>

definition ex_loud :: audio_buffer where
  "ex_loud =
     \<lparr> numberOfChannels = 2, buffer_length = 1,
       channels = [[Num 255211775190703847597530955573826158592],
                   [Num 255211775190703847597530955573826158592]] \<rparr>"

definition ex_mono :: audio_buffer where
  "ex_mono =
     \<lparr> numberOfChannels = 1, buffer_length = 3,
       channels = [[Num (1 / 2), Num 0, Num (- 1)]] \<rparr>"

definition ex_completion :: jsval where
  "ex_completion =
     JObj [(''choices'',
            JArr [JObj [(''message'', JObj [(''content'', JStr ''{}'')])]])]"

definition ex_response_ok :: response where
  "ex_response_ok = \<lparr> ok = True, status = 200, json = Inr ex_completion \<rparr>"

definition ex_response_401 :: response where
  "ex_response_401 =
     \<lparr> ok = False, status = 401, json = Inr (JObj [(''error'', JStr ''invalid key'')]) \<rparr>"

definition ex_syntax_error :: js_error where
  "ex_syntax_error = JsError ''SyntaxError'' ''Unexpected token''"

text \<open>
  \<^verbatim>\<open>JSON.parse\<close> on the message contents used below: the texts \<^verbatim>\<open>{}\<close> and \<^verbatim>\<open>null\<close> are
  JSON, a sentence of prose is not.
\<close>

definition ex_parse :: "jsval \<Rightarrow> js_error + jsval" where
  "ex_parse v =
     (if v = JStr ''{}'' then Inr (JObj [])
      else if v = JStr ''null'' then Inr JNull
      else Inl ex_syntax_error)"


definition ex_env :: env where
  "ex_env =
     \<lparr> getUserMedia = Inr (MediaStream 1),
       load_pipeline = Inr WhisperBase,
       decodeAudioData = (\<lambda>buf. Inr ex_mono),
       transcriber = (\<lambda>audio. Inr ''Acme ships widgets''),
       fetch = (\<lambda>req. Inr ex_response_ok),
       JSON_parse = ex_parse \<rparr>"

definition ex_env_401 :: env where
  "ex_env_401 = ex_env\<lparr>fetch := (\<lambda>req. Inr ex_response_401)\<rparr>"



definition ex_env_no_transcript :: env where
  "ex_env_no_transcript =
     ex_env\<lparr>transcriber := (\<lambda>audio. Inl (JsError ''Error'' ''model failed''))\<rparr>"

text \<open>The state once the model is loaded and a credential has been typed in.\<close>

definition ex_ready :: app_state where
  "ex_ready = setApiKey ''sk-key'' (initTranscriber ex_env initial_state)"

text \<open>The state while a recording runs.\<close>

definition ex_recording :: app_state where
  "ex_recording = snd (startRecording ex_env ex_ready)"

definition ex_blob :: blob where
  "ex_blob = [26, 69, 223, 163]"

definition ex_env_no_device :: env where
  "ex_env_no_device =
     ex_env\<lparr>getUserMedia := Inl (JsError ''NotAllowedError'' ''Permission denied'')\<rparr>"

definition ex_env_bad_audio :: env where
  "ex_env_bad_audio =
     ex_env\<lparr>decodeAudioData :=
              (\<lambda>buf. Inl (JsError ''EncodingError'' ''Unable to decode audio data''))\<rparr>"

text \<open>
  The recorder of the running recording once it has been stopped, and the state after one
  chunk and a click on the button.
\<close>

definition ex_recorder :: recorder where
  "ex_recorder = \<lparr>rec_stream = MediaStream 1, rec_apiKey = ''sk-key'', rec_state = Inactive\<rparr>"

definition ex_stopped :: app_state where
  "ex_stopped = snd (button_click ex_env (ondataavailable ex_blob ex_recording))"






section \<open>Properties of the rounding\<close>

lemma round_half_even_near:
  assumes "\<bar>q - of_int n\<bar> < 1 / 2"
  shows "round_half_even q = n"
proof -
  consider "of_int n \<le> q" | "q < of_int n" by linarith
  then show ?thesis
  proof cases
    case 1
    then have "\<lfloor>q\<rfloor> = n" using assms by (intro floor_unique) linarith+
    then show ?thesis using assms 1 by (simp add: round_half_even_def Let_def)
  next
    case 2
    then have f: "\<lfloor>q\<rfloor> = n - 1" using assms by (intro floor_unique) (simp, linarith+)
    have "q - of_int (n - 1) > 1 / 2" using assms 2 by simp
    then show ?thesis using f by (simp add: round_half_even_def Let_def)
  qed
qed

lemma floor_log2_between:
  assumes "2 powi e \<le> \<bar>x\<bar>" and "\<bar>x\<bar> < 2 powi (e + 1)"
  shows "\<lfloor>log 2 \<bar>x\<bar>\<rfloor> = e"
proof -
  have pos: "0 < \<bar>x\<bar>" using assms(1) by (smt (verit) zero_less_power_int)
  have a: "2 powr (of_int e) \<le> \<bar>x\<bar>" using assms(1) by (simp add: powr_real_of_int')
  have "2 powr real_of_int (e + 1) = (2::real) powi (e + 1)"
    by (rule powr_real_of_int') simp_all
  then have b: "\<bar>x\<bar> < 2 powr (of_int (e + 1))" using assms(2) by simp
  show ?thesis
    using floor_log_eq_powr_iff [of "\<bar>x\<bar>" 2 e] pos a b by simp
qed

text \<open>
  How a rounding is computed by hand: \<open>x\<close> lies in the binade of exponent \<open>e\<close>, the spacing
  there is \<open>ulp\<close>, and \<open>n\<close> is the integer within one half of \<open>x / ulp\<close>.
\<close>

lemma ieee_round_near:
  assumes "ulp = 2 powi (e - int p + 1)"
    and "2 powi e \<le> \<bar>x\<bar>" and "\<bar>x\<bar> < 2 powi (e + 1)" and "emin \<le> e"
    and "\<bar>x / ulp - of_int n\<bar> < 1 / 2"
    and "\<bar>of_int n * ulp\<bar> < (2::real) powi (emax + 1)"
  shows "ieee_round p emin emax x = Num (of_int n * ulp)"
proof -
  have nz: "x \<noteq> 0" using assms(2) by (smt (verit) zero_less_power_int)
  have e: "max \<lfloor>log 2 \<bar>x\<bar>\<rfloor> emin = e"
    using floor_log2_between [OF assms(2,3)] assms(4) by simp
  show ?thesis
    using nz assms(6) unfolding assms(1)
    by (simp add: ieee_round_def e Let_def round_half_even_near [OF assms(5) [unfolded assms(1)]])
qed

lemma ieee_round_overflow:
  assumes "ulp = 2 powi (e - int p + 1)"
    and "2 powi e \<le> \<bar>x\<bar>" and "\<bar>x\<bar> < 2 powi (e + 1)" and "emin \<le> e"
    and "\<bar>x / ulp - of_int n\<bar> < 1 / 2"
    and "(2::real) powi (emax + 1) \<le> \<bar>of_int n * ulp\<bar>" and "0 < x"
  shows "ieee_round p emin emax x = PosInf"
proof -
  have e: "max \<lfloor>log 2 \<bar>x\<bar>\<rfloor> emin = e"
    using floor_log2_between [OF assms(2,3)] assms(4) by simp
  have r: "round_half_even (x / 2 powi (e - int p + 1)) = n"
    using assms(5) unfolding assms(1) by (rule round_half_even_near)
  have "ieee_round p emin emax x =
          (if (2::real) powi (emax + 1) \<le> \<bar>of_int n * 2 powi (e - int p + 1)\<bar>
           then (if 0 < x then PosInf else NegInf)
           else Num (of_int n * 2 powi (e - int p + 1)))"
    using assms(7) unfolding ieee_round_def Let_def e r by simp
  then show ?thesis
    using assms(6,7) unfolding assms(1) by simp
qed

text \<open>A rounded value that is finite is a rational number.\<close>

lemma ieee_round_rational:
  assumes "ieee_round p emin emax x = Num y"
  shows "y \<in> \<rat>"
proof (cases "x = 0")
  case True
  then show ?thesis using assms by (auto simp: ieee_round_def)
next
  case False
  define e where "e = max \<lfloor>log 2 \<bar>x\<bar>\<rfloor> emin - int p + 1"
  have "(2::real) powi e \<in> \<rat>"
    by (simp add: power_int_def)
  then have "of_int (round_half_even (x / 2 powi e)) * (2::real) powi e \<in> \<rat>"
    by (intro Rats_mult) simp_all
  moreover have "y = of_int (round_half_even (x / 2 powi e)) * 2 powi e"
    using assms False unfolding ieee_round_def Let_def e_def by (simp split: if_splits)
  ultimately show ?thesis by simp
qed

text \<open>\<^verbatim>\<open>Math.sqrt(2)\<close> is the Number 1.4142135623730951.\<close>

lemma SCALING_FACTOR_value: "SCALING_FACTOR = Num (6369051672525773 / 4503599627370496)"
proof -
  have lo: "12738103345051545 / 9007199254740992 < sqrt 2"
    by (rule real_less_rsqrt) (simp add: power2_eq_square)
  have hi: "sqrt 2 < 12738103345051547 / 9007199254740992"
    by (rule real_less_lsqrt) (simp_all add: power2_eq_square)
  have "ieee_round 53 (- 1022) 1023 (sqrt 2) = Num (of_int 6369051672525773 * (1 / 2 ^ 52))"
  proof (rule ieee_round_near [where e = 0])
    show "1 / 2 ^ 52 = (2::real) powi (0 - int 53 + 1)"
      by (simp add: power_int_minus)
    show "2 powi 0 \<le> \<bar>sqrt 2\<bar>" using lo by simp
    show "\<bar>sqrt 2\<bar> < 2 powi (0 + 1)" using hi by simp
    have q: "sqrt 2 / (1 / 2 ^ 52) = sqrt 2 * 4503599627370496"
      by simp
    show "\<bar>sqrt 2 / (1 / 2 ^ 52) - real_of_int 6369051672525773\<bar> < 1 / 2"
      unfolding q of_int_numeral using lo hi by linarith
  qed simp_all
  then show ?thesis
    by (simp add: SCALING_FACTOR_def to_double_def)
qed

section \<open>Properties of the downmix\<close>

lemma length_ta_set: "length (ta_set xs i v) = length xs"
  by (simp add: ta_set_def)

lemma length_downmix_loop: "length (downmix_loop i n left right audio) = length audio"
proof (induction i n left right audio rule: downmix_loop.induct)
  case (1 i n left right audio)
  show ?case
  proof (cases "i < n")
    case True
    with "1" show ?thesis
      by (subst downmix_loop.simps) (simp add: length_ta_set)
  next
    case False
    then show ?thesis
      by (subst downmix_loop.simps) simp
  qed
qed

text \<open>Indices below the start of the loop are left as they were.\<close>

lemma downmix_loop_below:
  "k < i \<Longrightarrow> downmix_loop i n left right audio ! k = audio ! k"
proof (induction i n left right audio rule: downmix_loop.induct)
  case (1 i n left right audio)
  show ?case
  proof (cases "i < n")
    case True
    have "downmix_loop i n left right audio ! k =
          ta_set audio i
            (num_div (num_mul SCALING_FACTOR (num_add (ta_get left i) (ta_get right i)))
               (Num 2)) ! k"
      using "1.IH" [OF True] "1.prems" True
      by (subst downmix_loop.simps) simp
    also have "\<dots> = audio ! k"
      using "1.prems" by (simp add: ta_set_def)
    finally show ?thesis .
  next
    case False
    then show ?thesis
      by (subst downmix_loop.simps) simp
  qed
qed

text \<open>Every index the loop visits that lies inside the array holds the mixed sample.\<close>

lemma downmix_loop_at:
  "i \<le> k \<Longrightarrow> k < n \<Longrightarrow> k < length audio \<Longrightarrow>
   downmix_loop i n left right audio ! k =
     to_float32
       (num_div (num_mul SCALING_FACTOR (num_add (ta_get left k) (ta_get right k))) (Num 2))"
proof (induction i n left right audio rule: downmix_loop.induct)
  case (1 i n left right audio)
  let ?v = "num_div (num_mul SCALING_FACTOR (num_add (ta_get left i) (ta_get right i))) (Num 2)"
  from "1.prems" have run: "i < n" by simp
  have unfold: "downmix_loop i n left right audio =
                downmix_loop (i + 1) n left right (ta_set audio i ?v)"
    using run by (subst downmix_loop.simps) simp
  show ?case
  proof (cases "k = i")
    case True
    have "downmix_loop (i + 1) n left right (ta_set audio i ?v) ! k = ta_set audio i ?v ! k"
      using True by (simp add: downmix_loop_below)
    also have "\<dots> = to_float32 ?v"
      using True "1.prems" by (simp add: ta_set_def)
    finally show ?thesis
      using unfold True by simp
  next
    case False
    with "1.prems" have "i + 1 \<le> k" by simp
    then show ?thesis
      using "1.IH" [OF run] "1.prems" unfold by (simp add: length_ta_set)
  qed
qed

lemma wf_channel_length:
  "wf_audio_buffer b \<Longrightarrow> c < numberOfChannels b \<Longrightarrow> length (channels b ! c) = buffer_length b"
  by (simp add: wf_audio_buffer_def list_all_length)

text \<open>The samples of the two example buffers, operation by operation.\<close>

lemma sample_half_quarter:
  "to_float32 (num_div (num_mul SCALING_FACTOR (num_add (Num (1 / 2)) (Num (1 / 4)))) (Num 2)) =
     Num (4448731 / 8388608)"
proof -
  have s: "num_add (Num (1 / 2)) (Num (1 / 4)) = Num (3 / 4)"
    using ieee_round_near [of "1 / 2 ^ 53" "- 1" 53 "3 / 4" "- 1022" "3 * 2 ^ 51" 1023]
    by (simp add: to_double_def power_int_minus)
  have m: "num_mul SCALING_FACTOR (Num (3 / 4)) = Num (2388394377197165 / 2251799813685248)"
    using ieee_round_near [of "1 / 2 ^ 52" 0 53 "6369051672525773 / 4503599627370496 * (3 / 4)"
        "- 1022" 4776788754394330 1023]
    by (simp add: SCALING_FACTOR_value to_double_def power_int_minus)
  have d: "num_div (Num (2388394377197165 / 2251799813685248)) (Num 2) =
             Num (2388394377197165 / 4503599627370496)"
    using ieee_round_near [of "1 / 2 ^ 53" "- 1" 53 "2388394377197165 / 4503599627370496"
        "- 1022" 4776788754394330 1023]
    by (simp add: to_double_def power_int_minus)
  have f: "to_float32 (Num (2388394377197165 / 4503599627370496)) = Num (4448731 / 8388608)"
    using ieee_round_near [of "1 / 2 ^ 24" "- 1" 24 "2388394377197165 / 4503599627370496"
        "- 126" 8897462 127]
    by (simp add: power_int_minus)
  show ?thesis
    by (simp only: s m d f)
qed

lemma sample_quarter_minus_half:
  "to_float32 (num_div (num_mul SCALING_FACTOR (num_add (Num (1 / 4)) (Num (- (1 / 2))))) (Num 2)) =
     Num (- (11863283 / 67108864))"
proof -
  have s: "num_add (Num (1 / 4)) (Num (- (1 / 2))) = Num (- (1 / 4))"
    using ieee_round_near [of "1 / 2 ^ 54" "- 2" 53 "- (1 / 4)" "- 1022" "- (2 ^ 52)" 1023]
    by (simp add: to_double_def power_int_minus)
  have m: "num_mul SCALING_FACTOR (Num (- (1 / 4))) =
             Num (- (6369051672525773 / 18014398509481984))"
    using ieee_round_near [of "1 / 2 ^ 54" "- 2" 53 "- (6369051672525773 / 18014398509481984)"
        "- 1022" "- 6369051672525773" 1023]
    by (simp add: SCALING_FACTOR_value to_double_def power_int_minus)
  have d: "num_div (Num (- (6369051672525773 / 18014398509481984))) (Num 2) =
             Num (- (6369051672525773 / 36028797018963968))"
    using ieee_round_near [of "1 / 2 ^ 55" "- 3" 53 "- (6369051672525773 / 36028797018963968)"
        "- 1022" "- 6369051672525773" 1023]
    by (simp add: to_double_def power_int_minus)
  have f: "to_float32 (Num (- (6369051672525773 / 36028797018963968))) =
             Num (- (11863283 / 67108864))"
    using ieee_round_near [of "1 / 2 ^ 26" "- 3" 24 "- (6369051672525773 / 36028797018963968)"
        "- 126" "- 11863283" 127]
    by (simp add: power_int_minus)
  show ?thesis
    by (simp only: s m d f)
qed

lemma sample_loud:
  "to_float32
     (num_div
        (num_mul SCALING_FACTOR
           (num_add (Num 255211775190703847597530955573826158592)
              (Num 255211775190703847597530955573826158592)))
        (Num 2)) = PosInf"
proof -
  have s: "num_add (Num 255211775190703847597530955573826158592)
             (Num 255211775190703847597530955573826158592) =
           Num 510423550381407695195061911147652317184"
    using ieee_round_near [of "2 ^ 76" 128 53 510423550381407695195061911147652317184
        "- 1022" "3 * 2 ^ 51" 1023]
    by (simp add: to_double_def)
  have m: "num_mul SCALING_FACTOR (Num 510423550381407695195061911147652317184) =
           Num (4776788754394330 * 2 ^ 77)"
    using ieee_round_near [of "2 ^ 77" 129 53
        "6369051672525773 / 4503599627370496 * 510423550381407695195061911147652317184"
        "- 1022" 4776788754394330 1023]
    by (simp add: SCALING_FACTOR_value to_double_def)
  have d: "num_div (Num (4776788754394330 * 2 ^ 77)) (Num 2) = Num (4776788754394330 * 2 ^ 76)"
    using ieee_round_near [of "2 ^ 76" 128 53 "4776788754394330 * 2 ^ 76"
        "- 1022" 4776788754394330 1023]
    by (simp add: to_double_def)
  have f: "to_float32 (Num (4776788754394330 * 2 ^ 76)) = PosInf"
    using ieee_round_overflow [of "2 ^ 105" 128 24 "4776788754394330 * 2 ^ 76"
        "- 126" 8897462 127]
    by simp
  show ?thesis
    by (simp only: s m d f)
qed

lemma downmix_ex_stereo:
  "downmix ex_stereo = Inr [Num (4448731 / 8388608), Num (- (11863283 / 67108864))]"
proof -
  have "downmix ex_stereo =
          Inr [to_float32 (num_div (num_mul SCALING_FACTOR
                 (num_add (Num (1 / 2)) (Num (1 / 4)))) (Num 2)),
               to_float32 (num_div (num_mul SCALING_FACTOR
                 (num_add (Num (1 / 4)) (Num (- (1 / 2))))) (Num 2))]"
    by (simp add: downmix_def getChannelData_def ex_stereo_def new_Float32Array_def
        downmix_loop.simps [of 0] downmix_loop.simps [of "Suc 0"]
        downmix_loop.simps [of "Suc (Suc 0)"]
        ta_set_def ta_get_def numeral_2_eq_2
        del: num_add.simps num_mul.simps num_div.simps to_float32.simps)
  then show ?thesis
    by (simp only: sample_half_quarter sample_quarter_minus_half)
qed

text \<open>
  Claim C1, as amended. For a stereo buffer the downmix returns an array as long as the
  input channels, and the sample at every index \<open>i\<close> is the binary32 rounding of
  \<^verbatim>\<open>Math.sqrt(2) * (left[i] + right[i]) / 2\<close> as the host language evaluates it: the sum,
  the product and the quotient each rounded to binary64.
\<close>

theorem downmix_stereo:
  assumes wf: "wf_audio_buffer b" and stereo: "numberOfChannels b = 2"
  shows "\<exists>audio. downmix b = Inr audio \<and>
           length audio = buffer_length b \<and>
           length audio = length (channels b ! 0) \<and>
           (\<forall>i<length audio.
              audio ! i =
                to_float32
                  (num_div
                     (num_mul (to_double (sqrt 2))
                        (num_add (channels b ! 0 ! i) (channels b ! 1 ! i)))
                     (Num 2)))"
proof -
  let ?left = "channels b ! 0" and ?right = "channels b ! 1"
  let ?n = "buffer_length b"
  let ?audio = "downmix_loop 0 ?n ?left ?right (new_Float32Array (length ?left))"
  have two: "length (channels b) = 2"
    using wf stereo by (simp add: wf_audio_buffer_def)
  have len_left: "length ?left = ?n" and len_right: "length ?right = ?n"
    using wf stereo by (simp_all add: wf_channel_length)
  have run: "downmix b = Inr ?audio"
    using stereo two by (simp add: downmix_def getChannelData_def)
  have len: "length ?audio = ?n"
    by (simp add: length_downmix_loop new_Float32Array_def len_left)
  have at: "?audio ! i =
              to_float32
                (num_div (num_mul (to_double (sqrt 2)) (num_add (?left ! i) (?right ! i))) (Num 2))"
    if "i < ?n" for i
  proof -
    have gl: "ta_get ?left i = ?left ! i"
      using that len_left by (simp add: ta_get_def)
    have gr: "ta_get ?right i = ?right ! i"
      using that len_right by (simp add: ta_get_def)
    have "?audio ! i =
            to_float32
              (num_div (num_mul SCALING_FACTOR (num_add (ta_get ?left i) (ta_get ?right i)))
                 (Num 2))"
      using that by (intro downmix_loop_at) (simp_all add: new_Float32Array_def len_left)
    then show ?thesis
      unfolding SCALING_FACTOR_def gl gr .
  qed
  show ?thesis
    using run len len_left at by auto
qed

theorem downmix_stereo_witness:
  "wf_audio_buffer ex_stereo \<and> numberOfChannels ex_stereo = 2 \<and>
   (\<exists>audio. downmix ex_stereo = Inr audio \<and> length audio = 2 \<and>
      audio ! 0 = Num (4448731 / 8388608) \<and>
      audio ! 1 = Num (- (11863283 / 67108864))) \<and>
   wf_audio_buffer ex_loud \<and> numberOfChannels ex_loud = 2 \<and>
   (\<exists>audio. downmix ex_loud = Inr audio \<and> length audio = 1 \<and> audio ! 0 = PosInf)"
proof -
  have wf: "wf_audio_buffer ex_stereo" and st: "numberOfChannels ex_stereo = 2"
    by (simp_all add: ex_stereo_def wf_audio_buffer_def)
  from downmix_stereo [OF wf st] obtain audio where
    a: "downmix ex_stereo = Inr audio" "length audio = buffer_length ex_stereo"
    and f: "\<forall>i<length audio.
              audio ! i =
                to_float32
                  (num_div
                     (num_mul (to_double (sqrt 2))
                        (num_add (channels ex_stereo ! 0 ! i) (channels ex_stereo ! 1 ! i)))
                     (Num 2))"
    by blast
  have l2: "length audio = 2" using a(2) by (simp add: ex_stereo_def)
  have "audio ! 0 = Num (4448731 / 8388608)"
    using f [rule_format, of 0] l2
    by (simp add: ex_stereo_def sample_half_quarter [unfolded SCALING_FACTOR_def]
        del: num_add.simps num_mul.simps num_div.simps to_float32.simps)
  moreover have "audio ! 1 = Num (- (11863283 / 67108864))"
    using f [rule_format, of 1] l2
    by (simp add: ex_stereo_def sample_quarter_minus_half [unfolded SCALING_FACTOR_def]
        del: num_add.simps num_mul.simps num_div.simps to_float32.simps)
  ultimately have quiet:
    "\<exists>audio. downmix ex_stereo = Inr audio \<and> length audio = 2 \<and>
       audio ! 0 = Num (4448731 / 8388608) \<and> audio ! 1 = Num (- (11863283 / 67108864))"
    using a(1) l2 by blast
  have wf': "wf_audio_buffer ex_loud" and st': "numberOfChannels ex_loud = 2"
    by (simp_all add: ex_loud_def wf_audio_buffer_def)
  from downmix_stereo [OF wf' st'] obtain loud where
    b: "downmix ex_loud = Inr loud" "length loud = buffer_length ex_loud"
    and g: "\<forall>i<length loud.
              loud ! i =
                to_float32
                  (num_div
                     (num_mul (to_double (sqrt 2))
                        (num_add (channels ex_loud ! 0 ! i) (channels ex_loud ! 1 ! i)))
                     (Num 2))"
    by blast
  have l1: "length loud = 1" using b(2) by (simp add: ex_loud_def)
  have "loud ! 0 = PosInf"
    using g [rule_format, of 0] l1
    by (simp add: ex_loud_def sample_loud [unfolded SCALING_FACTOR_def]
        del: num_add.simps num_mul.simps num_div.simps to_float32.simps)
  then have loud: "\<exists>audio. downmix ex_loud = Inr audio \<and> length audio = 1 \<and> audio ! 0 = PosInf"
    using b(1) l1 by blast
  show ?thesis
    using wf st quiet wf' st' loud by blast
qed

text \<open>
  Claim C1 as it was stated, with the sample equal to the real number
  \<open>sqrt 2 * (left + right) / 2\<close>, fails at the first sample of the example buffer: the
  sample stored is the rational 4448731 / 8388608 (0.5303300619125366), and
  \<open>sqrt 2 * (1 / 2 + 1 / 4) / 2\<close> is irrational.
\<close>

theorem downmix_stereo_counterexample:
  "(case downmix ex_stereo of Inl e \<Rightarrow> NaN | Inr audio \<Rightarrow> audio ! 0) \<noteq>
     Num (sqrt 2 * (1 / 2 + 1 / 4) / 2)"
proof
  assume "(case downmix ex_stereo of Inl e \<Rightarrow> NaN | Inr audio \<Rightarrow> audio ! 0) =
            Num (sqrt 2 * (1 / 2 + 1 / 4) / 2)"
  then have "sqrt 2 * (3 / 8) = 4448731 / 8388608"
    by (simp add: downmix_ex_stereo)
  then have h: "sqrt 2 * 3145728 = 4448731"
    by simp
  have "(sqrt 2 * 3145728)\<^sup>2 = 2 * 3145728\<^sup>2"
    by (simp add: power_mult_distrib)
  then have "(4448731::real)\<^sup>2 = 2 * 3145728\<^sup>2"
    unfolding h .
  then show False
    by simp
qed

text \<open>
  Claim C6. For a buffer whose channel count is not 2 the downmix returns the first
  channel's samples as they are.
\<close>

theorem downmix_mono:
  assumes "wf_audio_buffer b" and "numberOfChannels b \<noteq> 2"
  shows "downmix b = Inr (channels b ! 0)"
  using assms by (simp add: downmix_def getChannelData_def wf_audio_buffer_def)

theorem downmix_mono_witness:
  "wf_audio_buffer ex_mono \<and> numberOfChannels ex_mono \<noteq> 2 \<and>
   downmix ex_mono = Inr [Num (1 / 2), Num 0, Num (- 1)]"
proof -
  have wf: "wf_audio_buffer ex_mono" and m: "numberOfChannels ex_mono \<noteq> 2"
    by (simp_all add: ex_mono_def wf_audio_buffer_def)
  show ?thesis
    using wf m downmix_mono [OF wf m] by (simp add: ex_mono_def)
qed

section \<open>Properties of the analysis operation\<close>

lemma analyze_nonempty:
  "key \<noteq> [] \<Longrightarrow>
   analyzeWithOpenAI en key txt s =
     (analyze_outcome en (mk_request key txt),
      s\<lparr>isAnalyzing := False, effects := effects s @ [Fetch (mk_request key txt)]\<rparr>)"
  by (simp add: analyzeWithOpenAI_def analyze_suspended_def log_effect_def)

lemma string_of_nat_401: "string_of_nat 401 = ''401''"
  by (simp add: string_of_nat.simps)



lemma analyze_in_two_steps:
  "key \<noteq> [] \<Longrightarrow>
   analyzeWithOpenAI en key txt s = analyze_resume en key txt (analyze_suspended key txt s)"
  by (simp add: analyzeWithOpenAI_def analyze_resume_def)

text \<open>
  Claim C3. Called with the empty credential, the analysis operation fails with the
  error of line 49 (the spec's \<^verbatim>\<open>ConfigError\<close>) whatever the transcript, and leaves the
  state as it was: in particular nothing is added to the log of outside calls, so
  \<^verbatim>\<open>fetch\<close> is not invoked.
\<close>

theorem analyze_empty_credential:
  "analyzeWithOpenAI en [] txt s =
     (Inl (JsError ''Error'' ''Please enter your OpenAI API key''), s) \<and>
   effects (snd (analyzeWithOpenAI en [] txt s)) = effects s"
  by (simp add: analyzeWithOpenAI_def)




text \<open>
  Claim C9. Called with a non-empty credential, the analysis operation adds exactly one
  entry to the log of outside calls, the request of line 55, whatever the service answers
  and whether the operation returns or fails: one request, no second attempt.
\<close>

theorem analyze_exactly_one_request:
  assumes "key \<noteq> []"
  shows "effects (snd (analyzeWithOpenAI en key txt s)) =
           effects s @ [Fetch (mk_request key txt)]"
  by (simp add: analyze_nonempty [OF assms])

theorem analyze_exactly_one_request_witness:
  "effects (snd (analyzeWithOpenAI ex_env_401 ''sk-key'' ''hello'' initial_state)) =
     [Fetch (mk_request ''sk-key'' ''hello'')] \<and>
   effects (snd (analyzeWithOpenAI ex_env ''sk-key'' ''hello'' initial_state)) =
     [Fetch (mk_request ''sk-key'' ''hello'')]"
proof -
  have key: "''sk-key'' \<noteq> []" by simp
  show ?thesis
    using analyze_exactly_one_request [OF key, of ex_env_401 "''hello''" initial_state]
      analyze_exactly_one_request [OF key, of ex_env "''hello''" initial_state]
    by (simp add: initial_state_def)
qed

section \<open>Properties of the recording session\<close>

lemma stopRecording_idle:
  "\<not> (recorderRef s \<noteq> None \<and> cap_isRecording cl) \<Longrightarrow> stopRecording cl s = (Inr (), s)"
  by (auto simp: stopRecording_def split: option.splits)

text \<open>What a handler that passes its guard on a running recorder leaves behind.\<close>

lemma stopRecording_acts:
  assumes "recorderRef s = Some r" and "rec_state r = Recording" and "cap_isRecording cl"
  shows "recorderRef (snd (stopRecording cl s)) = Some (r\<lparr>rec_state := Inactive\<rparr>)"
    and "\<not> isRecording (snd (stopRecording cl s))"
    and "status_line (snd (stopRecording cl s)) = []"
  using assms
  by (auto simp: stopRecording_def log_effect_def Let_def split: option.splits)

lemma stopRecording_inactive:
  assumes "recorderRef s = Some r" and "rec_state r = Inactive" and "cap_isRecording cl"
  shows "stopRecording cl s = (Inl invalid_state_error, s)"
  using assms by (simp add: stopRecording_def)


lemma ex_ready_fields:
  "isModelLoading ex_ready = False" "isAnalyzing ex_ready = False" "apiKey ex_ready = ''sk-key''"
  "isRecording ex_ready = False" "transcriberRef ex_ready = Some WhisperBase"
  "effects ex_ready = []" "status_line ex_ready = ''Model ready''"
  by (simp_all add: ex_ready_def setApiKey_def initTranscriber_def initial_state_def ex_env_def)

lemma ex_recording_fields:
  "isRecording ex_recording = True"
  "recorderRef ex_recording =
     Some \<lparr>rec_stream = MediaStream 1, rec_apiKey = ''sk-key'', rec_state = Recording\<rparr>"
  "stream_state ex_recording = Some (MediaStream 1)"
  "effects ex_recording = [GetUserMedia, RecorderStart (MediaStream 1)]"
  "status_line ex_recording = ''Recording...''"
  "isModelLoading ex_recording = False" "isAnalyzing ex_recording = False"
  "apiKey ex_recording = ''sk-key''" "transcriberRef ex_recording = Some WhisperBase"
  "chunksRef ex_recording = []"
  by (simp_all add: ex_recording_def startRecording_def log_effect_def Let_def ex_env_def
      ex_ready_fields)

lemma click_on_ex_ready: "button_click ex_env ex_ready = (Inr (), ex_recording)"
  by (simp add: button_click_def button_disabled_def ex_ready_fields ex_recording_def
      startRecording_def Let_def ex_env_def)

lemma click_on_ex_recording:
  "button_click ex_env ex_recording = stopRecording (render ex_recording) ex_recording"
  by (simp add: button_click_def button_disabled_def ex_recording_fields)

lemma first_stop_of_ex_recording:
  "stopRecording (render ex_recording) ex_recording =
     (Inr (),
      ex_recording
        \<lparr>isRecording := False, status_line := [],
         recorderRef :=
           Some \<lparr>rec_stream = MediaStream 1, rec_apiKey = ''sk-key'', rec_state = Inactive\<rparr>,
         effects :=
           [GetUserMedia, RecorderStart (MediaStream 1), RequestData (MediaStream 1),
            RecorderStop (MediaStream 1), TracksStop (MediaStream 1)]\<rparr>)"
  by (simp add: stopRecording_def render_def log_effect_def Let_def ex_recording_fields)

text \<open>
  Claim C7, as amended. Calling the stop handler twice in a row leaves the state exactly
  as the first call left it, and a call whose guard fails (no recorder, or \<^verbatim>\<open>isRecording\<close>
  false in the render the handler comes from) returns normally with the state unchanged.
  The second call is not a call that does nothing, though. After a first call that
  stopped a running recorder, the same handler passes its guard again, because the
  \<^verbatim>\<open>isRecording\<close> it reads is the constant of its render, and fails with the
  \<^verbatim>\<open>InvalidStateError\<close> of \<^verbatim>\<open>requestData()\<close> before any update; the stop handler of the
  render that follows the first call returns normally with the state unchanged; and the
  button, whose handler after a stop is \<^verbatim>\<open>startRecording\<close>, starts a recording.
\<close>

theorem stop_twice_state_unchanged:
  "snd (stopRecording cl (snd (stopRecording cl s))) = snd (stopRecording cl s) \<and>
   (\<not> (recorderRef s \<noteq> None \<and> cap_isRecording cl) \<longrightarrow> stopRecording cl s = (Inr (), s)) \<and>
   (recorderRef s = Some r \<longrightarrow> rec_state r = Recording \<longrightarrow> cap_isRecording cl \<longrightarrow>
      stopRecording cl (snd (stopRecording cl s)) =
        (Inl invalid_state_error, snd (stopRecording cl s)) \<and>
      stopRecording (render (snd (stopRecording cl s))) (snd (stopRecording cl s)) =
        (Inr (), snd (stopRecording cl s))) \<and>
   (recorderRef s = Some r \<longrightarrow> rec_state r = Recording \<longrightarrow> isRecording s \<longrightarrow>
    \<not> button_disabled s \<longrightarrow>
      button_click en (snd (button_click en s)) = startRecording en (snd (button_click en s)))"
proof (intro conjI impI)
  show "snd (stopRecording cl (snd (stopRecording cl s))) = snd (stopRecording cl s)"
  proof (cases "recorderRef s")
    case None
    then show ?thesis by (simp add: stopRecording_idle)
  next
    case (Some r0)
    show ?thesis
    proof (cases "cap_isRecording cl")
      case False
      then show ?thesis by (simp add: stopRecording_idle)
    next
      case True
      show ?thesis
      proof (cases "rec_state r0")
        case Inactive
        then show ?thesis by (simp add: stopRecording_inactive [OF Some _ True])
      next
        case Recording
        have "recorderRef (snd (stopRecording cl s)) = Some (r0\<lparr>rec_state := Inactive\<rparr>)"
          by (rule stopRecording_acts(1) [OF Some Recording True])
        then show ?thesis
          by (simp add: stopRecording_inactive [OF _ _ True])
      qed
    qed
  qed
next
  assume "\<not> (recorderRef s \<noteq> None \<and> cap_isRecording cl)"
  then show "stopRecording cl s = (Inr (), s)"
    by (rule stopRecording_idle)
next
  assume running: "recorderRef s = Some r" "rec_state r = Recording" and cap: "cap_isRecording cl"
  have "recorderRef (snd (stopRecording cl s)) = Some (r\<lparr>rec_state := Inactive\<rparr>)"
    by (rule stopRecording_acts(1) [OF running cap])
  then show "stopRecording cl (snd (stopRecording cl s)) =
               (Inl invalid_state_error, snd (stopRecording cl s))"
    by (simp add: stopRecording_inactive [OF _ _ cap])
  have "\<not> isRecording (snd (stopRecording cl s))"
    by (rule stopRecording_acts(2) [OF running cap])
  then show "stopRecording (render (snd (stopRecording cl s))) (snd (stopRecording cl s)) =
               (Inr (), snd (stopRecording cl s))"
    by (intro stopRecording_idle) (simp add: render_def)
next
  assume running: "recorderRef s = Some r" "rec_state r = Recording"
    and rec: "isRecording s" and enabled: "\<not> button_disabled s"
  have first: "button_click en s = stopRecording (render s) s"
    using rec enabled by (simp add: button_click_def)
  have cap: "cap_isRecording (render s)"
    using rec by (simp add: render_def)
  have stopped: "\<not> isRecording (snd (stopRecording (render s) s))"
    by (rule stopRecording_acts(2) [OF running cap])
  have "button_disabled (snd (stopRecording (render s) s)) = button_disabled s"
    using running cap
    by (auto simp: button_disabled_def stopRecording_def log_effect_def Let_def
        split: option.splits)
  then have "button_click en (snd (stopRecording (render s) s)) =
               startRecording en (snd (stopRecording (render s) s))"
    using stopped enabled by (simp add: button_click_def)
  then show "button_click en (snd (button_click en s)) =
               startRecording en (snd (button_click en s))"
    by (simp only: first)
qed

theorem stop_twice_state_unchanged_witness:
  "effects (snd (stopRecording (render ex_recording) ex_recording)) =
     [GetUserMedia, RecorderStart (MediaStream 1), RequestData (MediaStream 1),
      RecorderStop (MediaStream 1), TracksStop (MediaStream 1)] \<and>
   snd (stopRecording (render ex_recording)
          (snd (stopRecording (render ex_recording) ex_recording))) =
     snd (stopRecording (render ex_recording) ex_recording) \<and>
   \<not> (recorderRef ex_ready \<noteq> None \<and> cap_isRecording (render ex_ready)) \<and>
   stopRecording (render ex_ready) ex_ready = (Inr (), ex_ready) \<and>
   fst (stopRecording (render ex_recording)
          (snd (stopRecording (render ex_recording) ex_recording))) =
     Inl invalid_state_error \<and>
   button_click ex_env (snd (button_click ex_env ex_recording)) =
     startRecording ex_env (snd (button_click ex_env ex_recording))"
proof -
  have first: "effects (snd (stopRecording (render ex_recording) ex_recording)) =
     [GetUserMedia, RecorderStart (MediaStream 1), RequestData (MediaStream 1),
      RecorderStop (MediaStream 1), TracksStop (MediaStream 1)]"
    by (simp add: first_stop_of_ex_recording)
  have idle: "\<not> (recorderRef ex_ready \<noteq> None \<and> cap_isRecording (render ex_ready))"
    by (simp add: render_def ex_ready_fields)
  have running: "recorderRef ex_recording =
      Some \<lparr>rec_stream = MediaStream 1, rec_apiKey = ''sk-key'', rec_state = Recording\<rparr>"
    and state: "rec_state \<lparr>rec_stream = MediaStream 1, rec_apiKey = ''sk-key'',
                  rec_state = Recording\<rparr> = Recording"
    and cap: "cap_isRecording (render ex_recording)" and rec: "isRecording ex_recording"
    and enabled: "\<not> button_disabled ex_recording"
    by (simp_all add: ex_recording_fields render_def button_disabled_def)
  note t = stop_twice_state_unchanged [of "render ex_recording" ex_recording
      "\<lparr>rec_stream = MediaStream 1, rec_apiKey = ''sk-key'', rec_state = Recording\<rparr>" ex_env]
  note t0 = stop_twice_state_unchanged [of "render ex_ready" ex_ready]
  show ?thesis
    using first idle t running state cap rec enabled t0 by simp
qed

text \<open>
  Claim C7 as it was stated (the second call does nothing) fails on a running recording:
  the same handler called again ends with the \<^verbatim>\<open>InvalidStateError\<close>, and two clicks on
  the button in a row leave a new recording running.
\<close>

theorem stop_twice_counterexample:
  "fst (stopRecording (render ex_recording)
          (snd (stopRecording (render ex_recording) ex_recording))) =
     Inl invalid_state_error \<and>
   isRecording (snd (button_click ex_env (snd (button_click ex_env ex_recording))))"
  by (simp add: first_stop_of_ex_recording stopRecording_def render_def click_on_ex_recording
      button_click_def button_disabled_def startRecording_def log_effect_def Let_def
      ex_recording_fields ex_env_def)



text \<open>
  Claim C10. After an invocation of the analysis operation the analysing flag is false,
  whether the invocation returned a result or failed: an invocation with a non-empty
  credential sets it on entry (it is true while the request is outstanding) and clears
  it in the \<^verbatim>\<open>finally\<close>, so it is false afterwards whatever it was before; an invocation
  in a state in which it is not set leaves it unset, also when the guard of line 48
  throws. The invocations the component makes are those of line 179, with the credential
  kept with the recorder, and every recorder that a click on the button creates carries
  a non-empty credential.
\<close>

theorem analyzing_flag_after:
  "(key \<noteq> [] \<longrightarrow>
      isAnalyzing (analyze_suspended key txt s) \<and>
      \<not> isAnalyzing (snd (analyzeWithOpenAI en key txt s))) \<and>
   (\<not> isAnalyzing s \<longrightarrow> \<not> isAnalyzing (snd (analyzeWithOpenAI en key txt s))) \<and>
   (\<not> isRecording s' \<longrightarrow> button_click en' s' = (Inr (), s'') \<longrightarrow> s'' \<noteq> s' \<longrightarrow>
      (\<exists>r. recorderRef s'' = Some r \<and> rec_apiKey r = apiKey s' \<and> rec_apiKey r \<noteq> []))"
proof (intro conjI)
  show "key \<noteq> [] \<longrightarrow>
      isAnalyzing (analyze_suspended key txt s) \<and>
      \<not> isAnalyzing (snd (analyzeWithOpenAI en key txt s))"
    by (simp add: analyzeWithOpenAI_def analyze_suspended_def log_effect_def)
  show "\<not> isAnalyzing s \<longrightarrow> \<not> isAnalyzing (snd (analyzeWithOpenAI en key txt s))"
    by (simp add: analyzeWithOpenAI_def analyze_suspended_def log_effect_def)
  show "\<not> isRecording s' \<longrightarrow> button_click en' s' = (Inr (), s'') \<longrightarrow> s'' \<noteq> s' \<longrightarrow>
      (\<exists>r. recorderRef s'' = Some r \<and> rec_apiKey r = apiKey s' \<and> rec_apiKey r \<noteq> [])"
    by (auto simp: button_click_def button_disabled_def startRecording_def log_effect_def
        Let_def split: if_splits sum.splits)
qed

theorem analyzing_flag_after_witness:
  "isAnalyzing (analyze_suspended ''sk-key'' ''hello'' ex_ready) \<and>
   \<not> isAnalyzing (snd (analyzeWithOpenAI ex_env_401 ''sk-key'' ''hello'' ex_ready)) \<and>
   \<not> isAnalyzing (snd (analyzeWithOpenAI ex_env [] ''hello'' ex_ready)) \<and>
   (\<exists>r. recorderRef ex_recording = Some r \<and> rec_apiKey r = ''sk-key'')"
proof -
  have key: "''sk-key'' \<noteq> []" by simp
  have idle: "\<not> isAnalyzing ex_ready" and stopped: "\<not> isRecording ex_ready"
    by (simp_all add: ex_ready_fields)
  have changed: "ex_recording \<noteq> ex_ready"
  proof
    assume "ex_recording = ex_ready"
    then have "isRecording ex_recording = isRecording ex_ready" by simp
    then show False by (simp add: ex_recording_fields ex_ready_fields)
  qed
  note a = analyzing_flag_after
      [of "''sk-key''" "''hello''" ex_ready ex_env_401 ex_ready ex_env ex_recording]
  note b = analyzing_flag_after
      [of "[]" "''hello''" ex_ready ex_env ex_ready ex_env ex_recording]
  have "\<exists>r. recorderRef ex_recording = Some r \<and> rec_apiKey r = ''sk-key''"
    using a stopped changed click_on_ex_ready by (auto simp: ex_ready_fields)
  then show ?thesis
    using key idle a b by simp
qed

section \<open>Properties of the pipeline behind a recording\<close>

lemma ex_stopped_eq:
  "ex_stopped =
     ex_recording
       \<lparr>chunksRef := [ex_blob], isRecording := False, status_line := [],
        recorderRef := Some ex_recorder,
        effects :=
          [GetUserMedia, RecorderStart (MediaStream 1), RequestData (MediaStream 1),
           RecorderStop (MediaStream 1), TracksStop (MediaStream 1)]\<rparr>"
  by (simp add: ex_stopped_def button_click_def button_disabled_def stopRecording_def
      render_def ondataavailable_def log_effect_def Let_def ex_recorder_def ex_blob_def
      ex_recording_fields)

lemma ex_stopped_fields:
  "recorderRef ex_stopped = Some ex_recorder" "chunksRef ex_stopped = [ex_blob]"
  "transcriberRef ex_stopped = Some WhisperBase" "isRecording ex_stopped = False"
  "status_line ex_stopped = []"
  "effects ex_stopped =
     [GetUserMedia, RecorderStart (MediaStream 1), RequestData (MediaStream 1),
      RecorderStop (MediaStream 1), TracksStop (MediaStream 1)]"
  "isModelLoading ex_stopped = False" "isAnalyzing ex_stopped = False"
  "apiKey ex_stopped = ''sk-key''"
  by (simp_all add: ex_stopped_eq ex_recording_fields)

lemma downmix_ex_mono: "downmix ex_mono = Inr [Num (1 / 2), Num 0, Num (- 1)]"
  by (simp add: downmix_def getChannelData_def ex_mono_def)

text \<open>How an error of each stage leaves the handler it arises in.\<close>

lemma device_error_propagates:
  "getUserMedia en = Inl e \<Longrightarrow> startRecording en s = (Inl e, log_effect GetUserMedia s)"
  by (simp add: startRecording_def Let_def)

lemma decode_error_propagates:
  "decodeAudioData en buf = Inl e \<Longrightarrow> onloadend en key buf s = (Inl e, s)"
  by (simp add: onloadend_def)

text \<open>The handlers are the pieces run one after the other.\<close>

lemma onstop_in_pieces:
  "recorderRef s = Some cur \<Longrightarrow>
   onstop en r s = onloadend en (rec_apiKey r) (concat (chunksRef s)) (onstop_begin s)"
  by (simp add: onstop_def onstop_begin_def log_effect_def Let_def)

lemma onloadend_in_pieces:
  assumes "decodeAudioData en buf = Inr decoded" and "downmix decoded = Inr audio"
    and "transcriberRef s = Some p" and "transcriber en audio = Inr t" and "key \<noteq> []"
  shows "onloadend en key buf s = analyzed en key t (analyze_suspended key t (transcribed t s))"
  using assms
  by (simp add: onloadend_def analyzed_def transcribed_def analyze_in_two_steps Let_def)

lemma analysis_error_propagates:
  assumes "decodeAudioData en buf = Inr decoded" and "downmix decoded = Inr audio"
    and "transcriberRef s = Some p" and "transcriber en audio = Inr t"
    and "key \<noteq> []" and "analyze_outcome en (mk_request key t) = Inl e"
  shows "fst (onloadend en key buf s) = Inl e"
    and "status_line (snd (onloadend en key buf s)) = ''Transcription analysis in progress...''"
  using assms by (simp_all add: onloadend_def analyze_nonempty Let_def)

text \<open>
  Claim C5, as amended. When decoding and downmix succeed, the model is loaded and the
  transcriber fails with an error \<open>e\<close>, the handler sets the status to
  \<^verbatim>\<open>Transcription error: \<close> followed by the message of \<open>e\<close>, empties the chunks and goes
  no further: reading \<^verbatim>\<open>result.text\<close> of the undefined result throws, so the analysis
  operation is not invoked. No request is issued, and the analysing flag, the transcript
  and the analysis result keep their values.
\<close>

theorem transcription_failure_stops_pipeline:
  assumes "decodeAudioData en buf = Inr decoded" and "downmix decoded = Inr audio"
    and "transcriberRef s = Some p" and "transcriber en audio = Inl e"
  shows "onloadend en key buf s =
           (Inl (type_error ''undefined''),
            s\<lparr>status_line := ''Transcription error: '' @ message e, chunksRef := []\<rparr>) \<and>
         effects (snd (onloadend en key buf s)) = effects s \<and>
         isAnalyzing (snd (onloadend en key buf s)) = isAnalyzing s \<and>
         transcription (snd (onloadend en key buf s)) = transcription s \<and>
         analysis (snd (onloadend en key buf s)) = analysis s"
  using assms by (simp add: onloadend_def Let_def)

theorem transcription_failure_stops_pipeline_witness:
  "onloadend ex_env_no_transcript ''sk-key'' ex_blob ex_ready =
     (Inl (type_error ''undefined''),
      ex_ready\<lparr>status_line := ''Transcription error: model failed'', chunksRef := []\<rparr>)"
proof -
  have d: "decodeAudioData ex_env_no_transcript ex_blob = Inr ex_mono"
    by (simp add: ex_env_no_transcript_def ex_env_def)
  have t: "transcriber ex_env_no_transcript [Num (1 / 2), Num 0, Num (- 1)] =
             Inl (JsError ''Error'' ''model failed'')"
    by (simp add: ex_env_no_transcript_def ex_env_def)
  show ?thesis
    using transcription_failure_stops_pipeline
      [OF d downmix_ex_mono ex_ready_fields(5) t, of "''sk-key''"]
    by simp
qed

text \<open>
  Claim C5 as it was stated (the pipeline goes on to invoke the analysis stage) fails:
  with a loaded model, a non-empty credential and a failing transcriber the handler ends
  with the \<^verbatim>\<open>TypeError\<close> and the log of outside calls stays empty, so no analysis request
  was made.
\<close>

theorem transcription_failure_counterexample:
  "fst (onloadend ex_env_no_transcript ''sk-key'' ex_blob ex_ready) =
     Inl (type_error ''undefined'') \<and>
   effects (snd (onloadend ex_env_no_transcript ''sk-key'' ex_blob ex_ready)) = [] \<and>
   isAnalyzing (snd (onloadend ex_env_no_transcript ''sk-key'' ex_blob ex_ready)) = False"
  by (simp add: onloadend_def Let_def ex_env_no_transcript_def ex_env_def downmix_ex_mono
      ex_ready_fields)

text \<open>
  Claim C2 on the code. A recording is started, one chunk arrives, the recording is
  stopped and the \<^verbatim>\<open>stop\<close> event runs the pipeline. When the analysis service answers 401,
  the error leaves the handler uncaught and the status still reads
  \<^verbatim>\<open>Transcription analysis in progress...\<close>; when the audio cannot be decoded, the error
  leaves the handler uncaught and the status still reads \<^verbatim>\<open>Transcribing audio...\<close>; when
  the microphone is refused, the error leaves \<^verbatim>\<open>startRecording\<close> uncaught and the status
  still reads \<^verbatim>\<open>Model ready\<close>. Only a transcription error reaches the status line.
\<close>

theorem stage_errors_not_in_status:
  "fst (onstop ex_env_401 ex_recorder ex_stopped) =
     Inl (JsError ''Error'' ''OpenAI API error: 401'') \<and>
   status_line (snd (onstop ex_env_401 ex_recorder ex_stopped)) =
     ''Transcription analysis in progress...'' \<and>
   fst (onstop ex_env_bad_audio ex_recorder ex_stopped) =
     Inl (JsError ''EncodingError'' ''Unable to decode audio data'') \<and>
   status_line (snd (onstop ex_env_bad_audio ex_recorder ex_stopped)) =
     ''Transcribing audio...'' \<and>
   fst (startRecording ex_env_no_device ex_ready) =
     Inl (JsError ''NotAllowedError'' ''Permission denied'') \<and>
   status_line (snd (startRecording ex_env_no_device ex_ready)) = ''Model ready'' \<and>
   status_line (snd (onstop ex_env_no_transcript ex_recorder ex_stopped)) =
     ''Transcription error: model failed''"
proof -
  let ?s = "onstop_begin ex_stopped"
  have run: "onstop en ex_recorder ex_stopped = onloadend en ''sk-key'' ex_blob ?s" for en
    using onstop_in_pieces [OF ex_stopped_fields(1), of en ex_recorder]
    by (simp add: ex_stopped_fields ex_recorder_def)
  have loaded: "transcriberRef ?s = Some WhisperBase"
    and shown: "status_line ?s = ''Transcribing audio...''"
    by (simp_all add: onstop_begin_def log_effect_def ex_stopped_fields)
  have key: "''sk-key'' \<noteq> []" by simp
  have d: "decodeAudioData ex_env_401 ex_blob = Inr ex_mono"
    and t: "transcriber ex_env_401 [Num (1 / 2), Num 0, Num (- 1)] = Inr ''Acme ships widgets''"
    by (simp_all add: ex_env_401_def ex_env_def)
  have a: "analyze_outcome ex_env_401 (mk_request ''sk-key'' ''Acme ships widgets'') =
             Inl (JsError ''Error'' ''OpenAI API error: 401'')"
    by (simp add: analyze_outcome_def ex_env_401_def ex_env_def ex_response_401_def
        string_of_nat_401)
  have analysis:
    "fst (onstop ex_env_401 ex_recorder ex_stopped) =
       Inl (JsError ''Error'' ''OpenAI API error: 401'')"
    "status_line (snd (onstop ex_env_401 ex_recorder ex_stopped)) =
       ''Transcription analysis in progress...''"
    using analysis_error_propagates [OF d downmix_ex_mono loaded t key a]
    by (simp_all add: run)
  have "decodeAudioData ex_env_bad_audio ex_blob =
          Inl (JsError ''EncodingError'' ''Unable to decode audio data'')"
    by (simp add: ex_env_bad_audio_def ex_env_def)
  then have decode:
    "fst (onstop ex_env_bad_audio ex_recorder ex_stopped) =
       Inl (JsError ''EncodingError'' ''Unable to decode audio data'')"
    "status_line (snd (onstop ex_env_bad_audio ex_recorder ex_stopped)) =
       ''Transcribing audio...''"
    by (simp_all add: run decode_error_propagates shown)
  have "getUserMedia ex_env_no_device = Inl (JsError ''NotAllowedError'' ''Permission denied'')"
    by (simp add: ex_env_no_device_def ex_env_def)
  then have device:
    "fst (startRecording ex_env_no_device ex_ready) =
       Inl (JsError ''NotAllowedError'' ''Permission denied'')"
    "status_line (snd (startRecording ex_env_no_device ex_ready)) = ''Model ready''"
    by (simp_all add: device_error_propagates log_effect_def ex_ready_fields)
  have d': "decodeAudioData ex_env_no_transcript ex_blob = Inr ex_mono"
    and t': "transcriber ex_env_no_transcript [Num (1 / 2), Num 0, Num (- 1)] =
               Inl (JsError ''Error'' ''model failed'')"
    by (simp_all add: ex_env_no_transcript_def ex_env_def)
  have transcribe:
    "status_line (snd (onstop ex_env_no_transcript ex_recorder ex_stopped)) =
       ''Transcription error: model failed''"
    using d' t' by (simp add: run onloadend_def Let_def downmix_ex_mono loaded)
  show ?thesis
    using analysis decode device transcribe by simp
qed



end
